theory Spec2Isabelle
  imports Main
begin

section \<open>The runtime configuration of the MeetingNotes static site\<close>

text \<open>
  The unit under verification is \<^verbatim>\<open>web/config.js\<close>:
  \<^verbatim>\<open>
  window.CONFIG = {
    // Render backend public URL (used for GitHub Pages frontend calls)
    API_BASE_URL: 'https://meetingnotes.onrender.com',
  };
  \<close>
  The script evaluates an object literal with one property and stores the resulting
  object in the property \<^verbatim>\<open>CONFIG\<close> of the global object. The model makes the global
  object an explicit state that the script takes and returns.
\<close>

subsection \<open>Values, objects and property access\<close>

text \<open>
  The values a property can hold. An object is the list of its own properties in
  insertion order, which is the order JavaScript enumerates string keys in. The payload
  of a number plays no role below (the script holds none) and is kept integral.
\<close>

datatype js_value =
    JUndefined
  | JNull
  | JBoolean bool
  | JNumber int
  | JString string
  | JObject "(string \<times> js_value) list"

type_synonym js_object = "(string \<times> js_value) list"

datatype js_error = TypeError

text \<open>The \<^verbatim>\<open>typeof\<close> operator.\<close>

fun js_typeof :: "js_value \<Rightarrow> string" where
  "js_typeof JUndefined = ''undefined''"
| "js_typeof JNull = ''object''"
| "js_typeof (JBoolean b) = ''boolean''"
| "js_typeof (JNumber n) = ''number''"
| "js_typeof (JString s) = ''string''"
| "js_typeof (JObject ps) = ''object''"

text \<open>Reading an own property: a missing key reads as \<^verbatim>\<open>undefined\<close>.\<close>

fun get_own :: "string \<Rightarrow> js_object \<Rightarrow> js_value" where
  "get_own k [] = JUndefined"
| "get_own k ((k', v) # ps) = (if k' = k then v else get_own k ps)"

fun has_own :: "string \<Rightarrow> js_object \<Rightarrow> bool" where
  "has_own k [] = False"
| "has_own k ((k', v) # ps) = (k' = k \<or> has_own k ps)"

text \<open>
  Writing an own data property: an existing key keeps its position and takes the new
  value, a new key is appended.
\<close>

fun put_own :: "string \<Rightarrow> js_value \<Rightarrow> js_object \<Rightarrow> js_object" where
  "put_own k v [] = [(k, v)]"
| "put_own k v ((k', v') # ps) =
     (if k' = k then (k, v) # ps else (k', v') # put_own k v ps)"

definition own_keys :: "js_object \<Rightarrow> string list" where
  "own_keys ps = map fst ps"

text \<open>
  An object literal \<^verbatim>\<open>{ k1: v1, ..., kn: vn }\<close> starts from the empty object and
  defines the properties from left to right (a repeated key keeps the last value).
\<close>

definition object_literal :: "(string \<times> js_value) list \<Rightarrow> js_object" where
  "object_literal inits = fold (\<lambda>(k, v) obj. put_own k v obj) inits []"

text \<open>
  The member expression \<^verbatim>\<open>base.k\<close>: on \<^verbatim>\<open>undefined\<close> and \<^verbatim>\<open>null\<close> it
  throws a TypeError; on an object it reads the own property; on the other primitives it
  reads \<^verbatim>\<open>undefined\<close> for the keys used here, which no prototype defines.
\<close>

fun get_member :: "js_value \<Rightarrow> string \<Rightarrow> js_error + js_value" where
  "get_member JUndefined k = Inl TypeError"
| "get_member JNull k = Inl TypeError"
| "get_member (JObject ps) k = Inr (get_own k ps)"
| "get_member (JBoolean b) k = Inr JUndefined"
| "get_member (JNumber n) k = Inr JUndefined"
| "get_member (JString s) k = Inr JUndefined"

subsection \<open>The script and the read of its field\<close>

text \<open>
  \<^verbatim>\<open>window.CONFIG = { API_BASE_URL: 'https://meetingnotes.onrender.com', };\<close>
  as a function of the global object.
\<close>

definition config_js :: "js_object \<Rightarrow> js_object" where
  "config_js window =
     put_own ''CONFIG''
       (JObject (object_literal
          [(''API_BASE_URL'', JString ''https://meetingnotes.onrender.com'')]))
       window"

text \<open>
  The read that the front-end code performs, \<^verbatim>\<open>window.CONFIG.API_BASE_URL\<close>: two
  member expressions, the first on the global object.
\<close>

definition get_api_base_url :: "js_object \<Rightarrow> js_error + js_value" where
  "get_api_base_url window =
     (case get_member (JObject window) ''CONFIG'' of
        Inl e \<Rightarrow> Inl e
      | Inr c \<Rightarrow> get_member c ''API_BASE_URL'')"

text \<open>The record stored under \<^verbatim>\<open>window.CONFIG\<close>, as a value.\<close>

definition get_config :: "js_object \<Rightarrow> js_value" where
  "get_config window = get_own ''CONFIG'' window"

text \<open>
  The comment at the head of the script: the field is left empty for local development,
  where the backend runs on the origin of the page. That mode is the empty string.
\<close>

definition same_origin_mode :: "js_value \<Rightarrow> bool" where
  "same_origin_mode v = (v = JString [])"

definition has_trailing_slash :: "string \<Rightarrow> bool" where
  "has_trailing_slash s = (case rev s of [] \<Rightarrow> False | c # cs \<Rightarrow> c = CHR ''/'')"

subsection \<open>The lifetime of a page\<close>

text \<open>
  What the artifact contributes to a page: the script is loaded, and its field is read.
  A read returns the global object as it found it, together with its result. A page
  lifetime is a list of these events; the results of the reads are collected in order.
\<close>

datatype page_event = LoadConfig | ReadApiBaseUrl

fun page_step :: "page_event \<Rightarrow> js_object \<Rightarrow> js_object \<times> (js_error + js_value) list" where
  "page_step LoadConfig window = (config_js window, [])"
| "page_step ReadApiBaseUrl window = (window, [get_api_base_url window])"

fun page_run :: "page_event list \<Rightarrow> js_object \<Rightarrow> js_object \<times> (js_error + js_value) list" where
  "page_run [] window = (window, [])"
| "page_run (e # es) window =
     (case page_step e window of
        (window', rs) \<Rightarrow>
          (case page_run es window' of (window'', rs') \<Rightarrow> (window'', rs @ rs')))"

subsection \<open>URL syntax\<close>

text \<open>
  Modelled from the spec: the repository contains no URL parser, and the script never
  parses its value. Where the specification speaks of the value "parsing as an absolute
  URL" and of its scheme, host and path, the decomposition meant is taken to be the
  generic syntax of RFC 3986,
  \<^verbatim>\<open>scheme ":" "//" [ userinfo "@" ] host [ ":" port ] path [ "?" query ] [ "#" fragment ]\<close>,
  with the path as it is written in the string (no normalisation of an empty path).
\<close>

record url =
  url_scheme :: string
  url_userinfo :: "string option"
  url_host :: string
  url_port :: "string option"
  url_path :: string
  url_query :: "string option"
  url_fragment :: "string option"

text \<open>
  Modelled from the spec: the parser that the repository lacks. It splits a string at the
  delimiters of the generic syntax, from left to right, and returns nothing for a string
  that has no scheme or no \<^verbatim>\<open>//\<close> after it, that is, for a string that is not an
  absolute URL with an authority.
\<close>

definition parse_url :: "string \<Rightarrow> url option" where
  "parse_url s =
     (let sc = takeWhile (\<lambda>c. c \<notin> set '':/?#'') s;
          r1 = dropWhile (\<lambda>c. c \<notin> set '':/?#'') s
      in if sc = [] then None
         else if take 3 r1 = ''://'' then
           (let r2 = drop 3 r1;
                auth = takeWhile (\<lambda>c. c \<notin> set ''/?#'') r2;
                r3 = dropWhile (\<lambda>c. c \<notin> set ''/?#'') r2;
                path = takeWhile (\<lambda>c. c \<notin> set ''?#'') r3;
                r4 = dropWhile (\<lambda>c. c \<notin> set ''?#'') r3;
                query = (if take 1 r4 = ''?''
                         then Some (takeWhile (\<lambda>c. c \<noteq> CHR ''#'') (drop 1 r4)) else None);
                r5 = dropWhile (\<lambda>c. c \<noteq> CHR ''#'') r4;
                fragment = (if take 1 r5 = ''#'' then Some (drop 1 r5) else None);
                userinfo = (if CHR ''@'' \<in> set auth
                            then Some (takeWhile (\<lambda>c. c \<noteq> CHR ''@'') auth) else None);
                hostport = (if CHR ''@'' \<in> set auth
                            then drop 1 (dropWhile (\<lambda>c. c \<noteq> CHR ''@'') auth) else auth);
                host = takeWhile (\<lambda>c. c \<noteq> CHR '':'') hostport;
                r6 = dropWhile (\<lambda>c. c \<noteq> CHR '':'') hostport;
                port = (if take 1 r6 = '':'' then Some (drop 1 r6) else None)
            in Some \<lparr>url_scheme = sc, url_userinfo = userinfo, url_host = host,
                      url_port = port, url_path = path, url_query = query,
                      url_fragment = fragment\<rparr>)
         else None)"

text \<open>
  Modelled from the spec: the character classes of RFC 3986, by character code, for the
  syntactic validity that the specification asks of a non-empty value.
\<close>

definition is_alpha :: "char \<Rightarrow> bool" where
  "is_alpha c = (let n = (of_char c :: nat) in (65 \<le> n \<and> n \<le> 90) \<or> (97 \<le> n \<and> n \<le> 122))"

definition is_digit :: "char \<Rightarrow> bool" where
  "is_digit c = (let n = (of_char c :: nat) in 48 \<le> n \<and> n \<le> 57)"

definition is_hexdig :: "char \<Rightarrow> bool" where
  "is_hexdig c =
     (let n = (of_char c :: nat)
      in (48 \<le> n \<and> n \<le> 57) \<or> (65 \<le> n \<and> n \<le> 70) \<or> (97 \<le> n \<and> n \<le> 102))"

definition is_unreserved :: "char \<Rightarrow> bool" where
  "is_unreserved c = (is_alpha c \<or> is_digit c \<or> c \<in> set ''-._~'')"

definition is_sub_delim :: "char \<Rightarrow> bool" where
  "is_sub_delim c = (c \<in> set ''!$&()*+,;='' \<or> c = CHR 0x27)"

definition is_pchar :: "char \<Rightarrow> bool" where
  "is_pchar c = (is_unreserved c \<or> is_sub_delim c \<or> c \<in> set '':@'')"

text \<open>
  A component whose plain characters satisfy \<open>ok\<close> and whose percent signs each start
  an escape of two hexadecimal digits.
\<close>

fun pct_ok :: "(char \<Rightarrow> bool) \<Rightarrow> string \<Rightarrow> bool" where
  "pct_ok ok [] = True"
| "pct_ok ok (c # cs) =
     (if c = CHR ''%''
      then (case cs of
              h1 # h2 # rest \<Rightarrow> is_hexdig h1 \<and> is_hexdig h2 \<and> pct_ok ok rest
            | _ \<Rightarrow> False)
      else ok c \<and> pct_ok ok cs)"

definition valid_scheme :: "string \<Rightarrow> bool" where
  "valid_scheme sc =
     (case sc of
        [] \<Rightarrow> False
      | c # cs \<Rightarrow> is_alpha c \<and> list_all (\<lambda>d. is_alpha d \<or> is_digit d \<or> d \<in> set ''+-.'') cs)"

text \<open>
  Modelled from the spec: a parsed URL is syntactically valid when each component uses
  only the characters its rule allows and the host is not empty; a string is an absolute
  HTTP(S) URL when it parses, is valid and has the scheme \<^verbatim>\<open>http\<close> or \<^verbatim>\<open>https\<close>.
\<close>

definition valid_url :: "url \<Rightarrow> bool" where
  "valid_url u =
     (valid_scheme (url_scheme u)
      \<and> (case url_userinfo u of
           None \<Rightarrow> True
         | Some ui \<Rightarrow> pct_ok (\<lambda>c. is_unreserved c \<or> is_sub_delim c \<or> c = CHR '':'') ui)
      \<and> url_host u \<noteq> []
      \<and> pct_ok (\<lambda>c. is_unreserved c \<or> is_sub_delim c) (url_host u)
      \<and> (case url_port u of None \<Rightarrow> True | Some p \<Rightarrow> list_all is_digit p)
      \<and> pct_ok (\<lambda>c. is_pchar c \<or> c = CHR ''/'') (url_path u)
      \<and> (case url_query u of
           None \<Rightarrow> True
         | Some q \<Rightarrow> pct_ok (\<lambda>c. is_pchar c \<or> c \<in> set ''/?'') q)
      \<and> (case url_fragment u of
           None \<Rightarrow> True
         | Some f \<Rightarrow> pct_ok (\<lambda>c. is_pchar c \<or> c \<in> set ''/?'') f))"

definition is_absolute_http_url :: "string \<Rightarrow> bool" where
  "is_absolute_http_url s =
     (case parse_url s of
        None \<Rightarrow> False
      | Some u \<Rightarrow> valid_url u \<and> (url_scheme u = ''http'' \<or> url_scheme u = ''https''))"

section \<open>Basic facts about property access\<close>

lemma get_own_put_own_same: "get_own k (put_own k v ps) = v"
  by (induction ps) auto

lemma get_own_put_own_other: "k' \<noteq> k \<Longrightarrow> get_own k' (put_own k v ps) = get_own k' ps"
  by (induction ps) auto

lemma has_own_put_own_same: "has_own k (put_own k v ps)"
  by (induction ps) auto

lemma has_own_put_own_other: "k' \<noteq> k \<Longrightarrow> has_own k' (put_own k v ps) = has_own k' ps"
  by (induction ps) (auto split: if_splits)

lemma put_own_idem: "put_own k v (put_own k v ps) = put_own k v ps"
  by (induction ps) auto

lemma config_literal:
  "object_literal [(''API_BASE_URL'', JString ''https://meetingnotes.onrender.com'')] =
     [(''API_BASE_URL'', JString ''https://meetingnotes.onrender.com'')]"
  by (simp add: object_literal_def)

lemma get_config_config_js:
  "get_config (config_js window) =
     JObject [(''API_BASE_URL'', JString ''https://meetingnotes.onrender.com'')]"
  by (simp add: get_config_def config_js_def config_literal get_own_put_own_same)

lemma get_api_base_url_config_js:
  "get_api_base_url (config_js window) = Inr (JString ''https://meetingnotes.onrender.com'')"
  by (simp add: get_api_base_url_def config_js_def config_literal get_own_put_own_same)

lemma get_api_base_url_before_load: "get_api_base_url [] = Inl TypeError"
  by (simp add: get_api_base_url_def)

lemma config_js_idem: "config_js (config_js window) = config_js window"
  by (simp add: config_js_def put_own_idem)

lemma put_own_frame:
  "filter (\<lambda>p. fst p \<noteq> k) (put_own k v ps) = filter (\<lambda>p. fst p \<noteq> k) ps"
  by (induction ps) auto

section \<open>Facts about a page lifetime\<close>

text \<open>
  Once the script has run, every later event leaves the global object as the script left
  it, and every read yields the deployed literal.
\<close>

lemma page_run_loaded:
  "page_run evs (config_js window) =
     (config_js window,
      replicate (length (filter (\<lambda>e. e = ReadApiBaseUrl) evs))
        (Inr (JString ''https://meetingnotes.onrender.com'')))"
proof (induction evs)
  case Nil
  show ?case by simp
next
  case (Cons e evs)
  show ?case
  proof (cases e)
    case LoadConfig
    with Cons show ?thesis by (simp add: config_js_idem)
  next
    case ReadApiBaseUrl
    with Cons show ?thesis by (simp add: get_api_base_url_config_js)
  qed
qed

lemma page_run_from_load:
  "page_run (LoadConfig # evs) window =
     (config_js window,
      replicate (length (filter (\<lambda>e. e = ReadApiBaseUrl) evs))
        (Inr (JString ''https://meetingnotes.onrender.com'')))"
  by (simp add: page_run_loaded)

section \<open>Facts about the deployed literal as a URL\<close>

lemma parse_url_deployed:
  "parse_url ''https://meetingnotes.onrender.com'' =
     Some \<lparr>url_scheme = ''https'', url_userinfo = None,
            url_host = ''meetingnotes.onrender.com'', url_port = None,
            url_path = [], url_query = None, url_fragment = None\<rparr>"
  by (simp add: parse_url_def)

lemma valid_scheme_https: "valid_scheme ''https''"
  by (simp add: valid_scheme_def is_alpha_def)

lemma valid_url_deployed:
  "valid_url \<lparr>url_scheme = ''https'', url_userinfo = None,
              url_host = ''meetingnotes.onrender.com'', url_port = None,
              url_path = [], url_query = None, url_fragment = None\<rparr>"
  by (simp add: valid_url_def valid_scheme_https is_unreserved_def is_alpha_def is_digit_def)

lemma is_absolute_http_url_deployed:
  "is_absolute_http_url ''https://meetingnotes.onrender.com''"
  by (simp add: is_absolute_http_url_def parse_url_deployed valid_url_deployed)

text \<open>The validity check is not vacuous: it rejects values that are not such URLs.\<close>

lemma is_absolute_http_url_rejects:
  "\<not> is_absolute_http_url []"
  "\<not> is_absolute_http_url ''/api''"
  "\<not> is_absolute_http_url ''ftp://meetingnotes.onrender.com''"
  "\<not> is_absolute_http_url ''https://''"
  by (simp_all add: is_absolute_http_url_def parse_url_def valid_url_def)

section \<open>The properties of the specification\<close>

text \<open>
  Claim C1. With the deployed literal, a read of the field \<^verbatim>\<open>API_BASE_URL\<close> after the
  script has run returns exactly the string \<^verbatim>\<open>https://meetingnotes.onrender.com\<close>,
  whatever the global object held before; and that string, split as a URL, has the
  scheme \<^verbatim>\<open>https\<close>, the host \<^verbatim>\<open>meetingnotes.onrender.com\<close> and an empty path
  (and no user information, port, query or fragment).
\<close>

theorem deployed_value_read_and_parsed:
  "get_api_base_url (config_js window) = Inr (JString ''https://meetingnotes.onrender.com'')
   \<and> parse_url ''https://meetingnotes.onrender.com'' =
       Some \<lparr>url_scheme = ''https'', url_userinfo = None,
              url_host = ''meetingnotes.onrender.com'', url_port = None,
              url_path = [], url_query = None, url_fragment = None\<rparr>"
  by (simp add: get_api_base_url_config_js parse_url_deployed)

text \<open>
  Claim C2. After the script has run, the global object has the property
  \<^verbatim>\<open>CONFIG\<close>, its value is an object, and that object has the own property
  \<^verbatim>\<open>API_BASE_URL\<close>.
\<close>

theorem config_record_present:
  "has_own ''CONFIG'' (config_js window)
   \<and> (case get_config (config_js window) of
         JObject ps \<Rightarrow> has_own ''API_BASE_URL'' ps
       | _ \<Rightarrow> False)"
  by (simp add: get_config_config_js) (simp add: config_js_def has_own_put_own_same)

text \<open>
  Claim C3. Throughout a page lifetime that starts with the script, the value of the
  field is a string: every read observed returns a value whose \<^verbatim>\<open>typeof\<close> is
  \<^verbatim>\<open>string\<close>, and at the end of the lifetime the field still holds a string, which is
  neither \<^verbatim>\<open>null\<close> nor \<^verbatim>\<open>undefined\<close> nor a number.
\<close>

theorem api_base_url_always_string:
  "list_all (\<lambda>r. case r of Inl e \<Rightarrow> False | Inr v \<Rightarrow> js_typeof v = ''string'')
     (snd (page_run (LoadConfig # evs) window))
   \<and> (case get_api_base_url (fst (page_run (LoadConfig # evs) window)) of
         Inl e \<Rightarrow> False
       | Inr v \<Rightarrow> js_typeof v = ''string'' \<and> v \<noteq> JNull \<and> v \<noteq> JUndefined
                  \<and> (\<forall>n. v \<noteq> JNumber n))"
  unfolding page_run_from_load
  by (simp add: get_api_base_url_config_js list_all_length)

theorem api_base_url_always_string_witness:
  "snd (page_run [LoadConfig, ReadApiBaseUrl, LoadConfig, ReadApiBaseUrl] []) =
       [Inr (JString ''https://meetingnotes.onrender.com''),
        Inr (JString ''https://meetingnotes.onrender.com'')]
   \<and> list_all (\<lambda>r. case r of Inl e \<Rightarrow> False | Inr v \<Rightarrow> js_typeof v = ''string'')
       [Inr (JString ''https://meetingnotes.onrender.com''),
        Inr (JString ''https://meetingnotes.onrender.com'')]"
proof -
  have run: "snd (page_run [LoadConfig, ReadApiBaseUrl, LoadConfig, ReadApiBaseUrl] []) =
      [Inr (JString ''https://meetingnotes.onrender.com''),
       Inr (JString ''https://meetingnotes.onrender.com'')]"
    by (simp add: config_js_def object_literal_def get_api_base_url_def)
  from api_base_url_always_string [of "[ReadApiBaseUrl, LoadConfig, ReadApiBaseUrl]" "[]"]
  have "list_all (\<lambda>r. case r of Inl e \<Rightarrow> False | Inr v \<Rightarrow> js_typeof v = ''string'')
      (snd (page_run [LoadConfig, ReadApiBaseUrl, LoadConfig, ReadApiBaseUrl] []))"
    by (rule conjunct1)
  with run show ?thesis by simp
qed

text \<open>
  Claim C4. If the string that the field holds after the script has run is not empty,
  it parses as a syntactically valid absolute URL whose scheme is \<^verbatim>\<open>http\<close> or
  \<^verbatim>\<open>https\<close>.
\<close>

theorem api_base_url_nonempty_is_http_url:
  "get_api_base_url (config_js window) = Inr (JString s) \<Longrightarrow> s \<noteq> [] \<Longrightarrow>
     is_absolute_http_url s"
  by (auto simp add: get_api_base_url_config_js is_absolute_http_url_deployed)

theorem api_base_url_nonempty_is_http_url_witness:
  "get_api_base_url (config_js []) = Inr (JString ''https://meetingnotes.onrender.com'')
   \<and> ''https://meetingnotes.onrender.com'' \<noteq> []
   \<and> is_absolute_http_url ''https://meetingnotes.onrender.com''"
proof -
  have rd: "get_api_base_url (config_js []) =
      Inr (JString ''https://meetingnotes.onrender.com'')"
    by (simp add: get_api_base_url_def config_js_def object_literal_def)
  have ne: "''https://meetingnotes.onrender.com'' \<noteq> []"
    by simp
  from api_base_url_nonempty_is_http_url [OF rd ne] rd ne show ?thesis
    by blast
qed

text \<open>
  Claim C5. The read takes no input: after the script has run its result does not depend
  on what the global object held before. It returns the configured string verbatim, and
  it does not fail: the result is a value, never the TypeError of the member expression.
\<close>

theorem get_api_base_url_always_succeeds:
  "get_api_base_url (config_js window) = Inr (JString ''https://meetingnotes.onrender.com'')
   \<and> get_api_base_url (config_js window) = get_api_base_url (config_js window')
   \<and> get_api_base_url (config_js window) \<noteq> Inl TypeError"
  by (simp add: get_api_base_url_config_js)

text \<open>
  Claim C6. In a page lifetime that starts with the script, any two reads yield the
  identical value: the results of the reads, in the order they happen, agree at every
  pair of positions.
\<close>

theorem reads_are_stable:
  "rs = snd (page_run (LoadConfig # evs) window) \<Longrightarrow> i < length rs \<Longrightarrow> j < length rs \<Longrightarrow>
     rs ! i = rs ! j"
  by (simp add: page_run_loaded)

theorem reads_are_stable_witness:
  "snd (page_run [LoadConfig, ReadApiBaseUrl, ReadApiBaseUrl, LoadConfig, ReadApiBaseUrl]
          [(''CONFIG'', JNumber 7)]) =
     [Inr (JString ''https://meetingnotes.onrender.com''),
      Inr (JString ''https://meetingnotes.onrender.com''),
      Inr (JString ''https://meetingnotes.onrender.com'')]
   \<and> (0::nat) < 3 \<and> (2::nat) < 3
   \<and> snd (page_run [LoadConfig, ReadApiBaseUrl, ReadApiBaseUrl, LoadConfig, ReadApiBaseUrl]
            [(''CONFIG'', JNumber 7)]) ! 0 =
       snd (page_run [LoadConfig, ReadApiBaseUrl, ReadApiBaseUrl, LoadConfig, ReadApiBaseUrl]
            [(''CONFIG'', JNumber 7)]) ! 2"
proof -
  have run: "snd (page_run
        [LoadConfig, ReadApiBaseUrl, ReadApiBaseUrl, LoadConfig, ReadApiBaseUrl]
        [(''CONFIG'', JNumber 7)]) =
      [Inr (JString ''https://meetingnotes.onrender.com''),
       Inr (JString ''https://meetingnotes.onrender.com''),
       Inr (JString ''https://meetingnotes.onrender.com'')]"
    by (simp add: config_js_def object_literal_def get_api_base_url_def)
  have len: "(0::nat) < length (snd (page_run
        [LoadConfig, ReadApiBaseUrl, ReadApiBaseUrl, LoadConfig, ReadApiBaseUrl]
        [(''CONFIG'', JNumber 7)]))"
      "(2::nat) < length (snd (page_run
        [LoadConfig, ReadApiBaseUrl, ReadApiBaseUrl, LoadConfig, ReadApiBaseUrl]
        [(''CONFIG'', JNumber 7)]))"
    unfolding run by simp_all
  from reads_are_stable [OF refl len] run show ?thesis
    by simp
qed

text \<open>
  Claim C7. The configuration is not changed after its definition: a read returns the
  global object exactly as it found it, and in a page lifetime every event after the
  script leaves the global object as the script left it, so the record under
  \<^verbatim>\<open>CONFIG\<close> stays the one the script defined.
\<close>

theorem config_not_mutated:
  "fst (page_step ReadApiBaseUrl window) = window
   \<and> fst (page_run (LoadConfig # evs) window) = config_js window
   \<and> get_config (fst (page_run (LoadConfig # evs) window)) =
       JObject [(''API_BASE_URL'', JString ''https://meetingnotes.onrender.com'')]"
  by (simp add: page_run_loaded get_config_config_js)

text \<open>
  Claim C8. The whole effect of the artifact is one assignment to the global
  \<^verbatim>\<open>CONFIG\<close>: every other property of the global object is kept, with its value and
  in its place, and the value assigned is the record
  \<^verbatim>\<open>{ API_BASE_URL: 'https://meetingnotes.onrender.com' }\<close>, whose one field holds
  a string and no nested record.
\<close>

theorem artifact_is_single_assignment:
  "filter (\<lambda>p. fst p \<noteq> ''CONFIG'') (config_js window) =
     filter (\<lambda>p. fst p \<noteq> ''CONFIG'') window
   \<and> get_config (config_js window) =
       JObject [(''API_BASE_URL'', JString ''https://meetingnotes.onrender.com'')]
   \<and> list_all (\<lambda>p. js_typeof (snd p) = ''string'')
       (case get_config (config_js window) of JObject ps \<Rightarrow> ps | _ \<Rightarrow> [])"
  by (simp add: get_config_config_js) (simp add: config_js_def put_own_frame)

text \<open>
  Claim C9. The object under \<^verbatim>\<open>CONFIG\<close> has exactly one own property, named
  \<^verbatim>\<open>API_BASE_URL\<close>.
\<close>

theorem config_has_exactly_one_property:
  "(case get_config (config_js window) of
      JObject ps \<Rightarrow> own_keys ps = [''API_BASE_URL''] \<and> length ps = 1
    | _ \<Rightarrow> False)"
  by (simp add: get_config_config_js own_keys_def)

text \<open>
  Claim C10. The deployed value is a non-empty string that does not end in a slash, so
  the empty-string mode (requests go to the origin of the page) is not the one in force.
\<close>

theorem deployed_value_nonempty_no_trailing_slash:
  "(case get_api_base_url (config_js window) of
      Inr (JString s) \<Rightarrow>
        s \<noteq> [] \<and> \<not> has_trailing_slash s \<and> \<not> same_origin_mode (JString s)
    | _ \<Rightarrow> False)"
  by (simp add: get_api_base_url_config_js has_trailing_slash_def same_origin_mode_def)

end
